theory Spec2Isabelle
  imports Complex_Main "HOL-Library.Multiset"
begin

section \<open>The flashcard learning store of \<open>main.py\<close>\<close>

text \<open>
  The program is one class, \<open>FlashcardApp\<close>. Its learning state is a list of cards
  still to learn (\<open>to_learn\<close>), the card on display (\<open>current_card\<close>), a one-slot undo
  buffer (\<open>last_removed\<close>) and two counters. Each method is embedded as a function from
  the state to the new state. What the methods draw on the canvas, the flip timer and the
  fonts are not part of the model; every dialog and every printed line is kept, in order,
  in the field \<open>dialogs\<close>, since several properties are about what is reported.
\<close>

subsection \<open>Data\<close>

text \<open>
  A card is a Python \<open>dict\<close> from column name to cell; two dicts are equal when they hold
  the same keys with the same values, which is equality of maps. The empty dict is the only
  falsy one. Strings are byte lists, non-ASCII text in UTF-8.
\<close>

type_synonym card = "string \<rightharpoonup> string"

type_synonym exn = string

text \<open>
  The two pandas calls of the program are parameters of the model: \<open>read_csv\<close> is
  \<open>pd.read_csv(path).to_dict(orient="records")\<close> on a file's content (it raises on
  content it cannot parse), \<open>to_csv\<close> is the content that
  \<open>pd.DataFrame(rows).to_csv(path, index=False)\<close> writes. \<open>len(data) > 0\<close> on the
  frame is non-emptiness of its list of records.
\<close>

record 'f pandas =
  read_csv :: "'f \<Rightarrow> exn + card list"
  to_csv :: "card list \<Rightarrow> 'f"

datatype dialog =
    Warning_data_not_found
  | Error_load exn
  | Info_undo
  | Info_reset
  | Error_reset exn
  | Info_congratulations int int
  | Print_save_error exn

text \<open>
  The two data files are part of the state: \<open>None\<close> is a file that does not exist.
  \<open>write_fails\<close> is the environment's answer to every attempt to write or to delete in
  the data directory: \<open>Some e\<close> when the attempt raises \<open>e\<close>.
\<close>

record 'f app =
  current_card :: card
  cards_learned_today :: int
  is_flipped :: bool
  to_learn :: "card list"
  original_count :: int
  last_removed :: "card option"
  undo_button :: bool
  progress_var :: real
  progress_file :: "'f option"
  original_file :: "'f option"
  write_fails :: "exn option"
  dialogs :: "dialog list"

subsection \<open>Loading\<close>

definition urdu_salam :: string where
  "urdu_salam = [CHR 0xD8, CHR 0xB3, CHR 0xD9, CHR 0x84, CHR 0xD8, CHR 0xA7, CHR 0xD9, CHR 0x85]"

definition urdu_shukriya :: string where
  "urdu_shukriya = [CHR 0xD8, CHR 0xB4, CHR 0xDA, CHR 0xA9, CHR 0xD8, CHR 0xB1, CHR 0xDB, CHR 0x8C,
     CHR 0xDB, CHR 0x81]"

definition urdu_pani :: string where
  "urdu_pani = [CHR 0xD9, CHR 0xBE, CHR 0xD8, CHR 0xA7, CHR 0xD9, CHR 0x86, CHR 0xDB, CHR 0x8C]"

definition card_hello :: card where
  "card_hello = [''Urdu'' \<mapsto> urdu_salam, ''English'' \<mapsto> ''Hello'']"

definition card_thank_you :: card where
  "card_thank_you = [''Urdu'' \<mapsto> urdu_shukriya, ''English'' \<mapsto> ''Thank you'']"

definition card_water :: card where
  "card_water = [''Urdu'' \<mapsto> urdu_pani, ''English'' \<mapsto> ''Water'']"

definition demo_data :: "card list" where
  "demo_data = [card_hello, card_thank_you, card_water]"

text \<open>
  \<open>_load_data\<close>: the body of the \<open>try\<close> is \<open>load_data_try\<close>, with \<open>Inl\<close> for an
  exception of \<open>read_csv\<close>; the handler turns it into an error dialog and the empty list.
  The result is the list returned and the dialogs shown on the way.
\<close>

definition load_original :: "'f pandas \<Rightarrow> 'f option \<Rightarrow> exn + (card list \<times> dialog list)" where
  "load_original io orig =
     (case orig of
        Some g \<Rightarrow> (case read_csv io g of Inl e \<Rightarrow> Inl e | Inr d \<Rightarrow> Inr (d, []))
      | None \<Rightarrow> Inr (demo_data, [Warning_data_not_found]))"

definition load_data_try ::
  "'f pandas \<Rightarrow> 'f option \<Rightarrow> 'f option \<Rightarrow> exn + (card list \<times> dialog list)" where
  "load_data_try io prog orig =
     (case prog of
        Some f \<Rightarrow>
          (case read_csv io f of
             Inl e \<Rightarrow> Inl e
           | Inr d \<Rightarrow> if d \<noteq> [] then Inr (d, []) else load_original io orig)
      | None \<Rightarrow> load_original io orig)"

definition load_data :: "'f pandas \<Rightarrow> 'f app \<Rightarrow> card list \<times> dialog list" where
  "load_data io s =
     (case load_data_try io (progress_file s) (original_file s) of
        Inl e \<Rightarrow> ([], [Error_load e])
      | Inr r \<Rightarrow> r)"

text \<open>
  The first step of the chain yields nothing when there is no progress file, or when the
  file parses to a frame of no rows: \<open>_load_data\<close> then goes on to the original file.
\<close>

definition no_saved_progress :: "'f pandas \<Rightarrow> 'f app \<Rightarrow> bool" where
  "no_saved_progress io s =
     (case progress_file s of None \<Rightarrow> True | Some f \<Rightarrow> read_csv io f = Inr [])"

subsection \<open>Progress display\<close>

text \<open>
  \<open>_get_progress_text\<close> formats three numbers into the label; the model returns the
  numbers. Python's \<open>/\<close> on integers is float division, taken here over the reals.
\<close>

definition get_progress_text :: "'f app \<Rightarrow> int \<times> int \<times> real" where
  "get_progress_text s =
     (let total = original_count s;
          remaining = int (length (to_learn s));
          learned = total - remaining;
          percentage = (if total > 0 then real_of_int learned / real_of_int total * 100 else 0)
      in (learned, total, percentage))"

definition update_progress_bar :: "'f app \<Rightarrow> 'f app" where
  "update_progress_bar s =
     (if original_count s > 0 then
        (let learned = original_count s - int (length (to_learn s))
         in s\<lparr>progress_var := (real_of_int learned / real_of_int (original_count s)) * 100\<rparr>)
      else s)"

definition update_stats :: "'f app \<Rightarrow> 'f app" where
  "update_stats s = update_progress_bar s"

definition show_completion_message :: "'f app \<Rightarrow> 'f app" where
  "show_completion_message s =
     s\<lparr>dialogs := dialogs s @ [Info_congratulations (original_count s) (cards_learned_today s)]\<rparr>"

subsection \<open>The operations\<close>

text \<open>
  \<open>random.choice(seq)\<close> is \<open>seq[randbelow(len(seq))]\<close>; the draw is the argument \<open>r\<close>,
  reduced below the length. \<open>next_card\<close> calls it on a non-empty list only.
\<close>

definition random_choice :: "nat \<Rightarrow> 'a list \<Rightarrow> 'a" where
  "random_choice r xs = xs ! (r mod length xs)"

definition next_card :: "nat \<Rightarrow> 'f app \<Rightarrow> 'f app" where
  "next_card r s =
     (if to_learn s = [] then show_completion_message s
      else s\<lparr>is_flipped := False, current_card := random_choice r (to_learn s)\<rparr>)"

definition save_progress :: "'f pandas \<Rightarrow> 'f app \<Rightarrow> 'f app" where
  "save_progress io s =
     (case write_fails s of
        None \<Rightarrow> s\<lparr>progress_file := Some (to_csv io (to_learn s))\<rparr>
      | Some e \<Rightarrow> s\<lparr>dialogs := dialogs s @ [Print_save_error e]\<rparr>)"

definition is_known :: "'f pandas \<Rightarrow> nat \<Rightarrow> 'f app \<Rightarrow> 'f app" where
  "is_known io r s =
     (if current_card s = Map.empty \<or> to_learn s = [] then s
      else
        (let s1 = s\<lparr>last_removed := Some (current_card s), undo_button := True\<rparr>;
             s2 = (if current_card s1 \<in> set (to_learn s1)
                   then s1\<lparr>to_learn := remove1 (current_card s1) (to_learn s1)\<rparr>
                   else s1);
             s3 = s2\<lparr>cards_learned_today := cards_learned_today s2 + 1\<rparr>;
             s4 = save_progress io s3;
             s5 = update_stats s4
         in next_card r s5))"

definition undo_last :: "'f pandas \<Rightarrow> 'f app \<Rightarrow> 'f app" where
  "undo_last io s =
     (case last_removed s of
        None \<Rightarrow> s
      | Some c \<Rightarrow>
          if c = Map.empty then s
          else
            (let s1 = s\<lparr>to_learn := to_learn s @ [c]\<rparr>;
                 s2 = s1\<lparr>cards_learned_today := max 0 (cards_learned_today s1 - 1)\<rparr>;
                 s3 = save_progress io s2;
                 s4 = update_stats s3;
                 s5 = s4\<lparr>last_removed := None, undo_button := False\<rparr>
             in s5\<lparr>dialogs := dialogs s5 @ [Info_undo]\<rparr>))"

text \<open>
  \<open>reset_progress\<close>: \<open>yes\<close> is the user's answer to the confirmation dialog. The
  \<open>try\<close> block can raise in \<open>unlink\<close> only, before any field is assigned.
\<close>

definition unlink :: "'f app \<Rightarrow> exn + 'f app" where
  "unlink s =
     (case write_fails s of
        None \<Rightarrow> Inr (s\<lparr>progress_file := None\<rparr>)
      | Some e \<Rightarrow> Inl e)"

definition reset_progress :: "'f pandas \<Rightarrow> bool \<Rightarrow> nat \<Rightarrow> 'f app \<Rightarrow> 'f app" where
  "reset_progress io yes r s =
     (if \<not> yes then s
      else
        (case (if progress_file s \<noteq> None then unlink s else Inr s) of
           Inl e \<Rightarrow> s\<lparr>dialogs := dialogs s @ [Error_reset e]\<rparr>
         | Inr s1 \<Rightarrow>
             (let (d, msgs) = load_data io s1;
                  s2 = s1\<lparr>to_learn := d, dialogs := dialogs s1 @ msgs\<rparr>;
                  s3 = s2\<lparr>original_count := int (length (to_learn s2))\<rparr>;
                  s4 = s3\<lparr>cards_learned_today := 0\<rparr>;
                  s5 = update_stats s4;
                  s6 = (if to_learn s5 \<noteq> [] then next_card r s5 else s5)
              in s6\<lparr>dialogs := dialogs s6 @ [Info_reset]\<rparr>)))"

text \<open>
  \<open>__init__\<close> with the files found at start: the fields are set, the data loaded, the
  progress bar drawn, and the first card shown.
\<close>

definition init_app ::
  "'f pandas \<Rightarrow> nat \<Rightarrow> 'f option \<Rightarrow> 'f option \<Rightarrow> exn option \<Rightarrow> 'f app" where
  "init_app io r prog orig fails =
     (let s0 = \<lparr>current_card = Map.empty, cards_learned_today = 0, is_flipped = False,
                to_learn = [], original_count = 0, last_removed = None, undo_button = False,
                progress_var = 0, progress_file = prog, original_file = orig,
                write_fails = fails, dialogs = []\<rparr>;
          (d, msgs) = load_data io s0;
          s1 = s0\<lparr>to_learn := d, dialogs := dialogs s0 @ msgs\<rparr>;
          s2 = s1\<lparr>original_count := int (length (to_learn s1))\<rparr>;
          s3 = update_progress_bar s2
      in if to_learn s3 \<noteq> [] then next_card r s3 else show_completion_message s3)"


subsection \<open>Runs of the program\<close>

text \<open>
  The user's actions on the learning state, each with the random draw or the answer it
  consumes: the arrow keys and buttons (\<open>next_card\<close>, \<open>is_known\<close>), undo, reset, and a
  save on its own. A run applies them in order; \<open>trace\<close> lists the states it passes.
\<close>

datatype op =
    Next_card nat
  | Is_known nat
  | Undo_last
  | Reset_progress bool nat
  | Save_progress

fun step :: "'f pandas \<Rightarrow> op \<Rightarrow> 'f app \<Rightarrow> 'f app" where
  "step io (Next_card r) s = next_card r s"
| "step io (Is_known r) s = is_known io r s"
| "step io Undo_last s = undo_last io s"
| "step io (Reset_progress yes r) s = reset_progress io yes r s"
| "step io Save_progress s = save_progress io s"

fun trace :: "'f pandas \<Rightarrow> op list \<Rightarrow> 'f app \<Rightarrow> 'f app list" where
  "trace io [] s = [s]"
| "trace io (x # xs) s = s # trace io xs (step io x s)"

fun run :: "'f pandas \<Rightarrow> op list \<Rightarrow> 'f app \<Rightarrow> 'f app" where
  "run io [] s = s"
| "run io (x # xs) s = run io xs (step io x s)"

fun is_undo_or_reset :: "op \<Rightarrow> bool" where
  "is_undo_or_reset Undo_last = True"
| "is_undo_or_reset (Reset_progress yes r) = True"
| "is_undo_or_reset x = False"

definition learned_total :: "'f app \<Rightarrow> int" where
  "learned_total s = fst (get_progress_text s)"

subsection \<open>Files written and read back\<close>


subsection \<open>A concrete file format and concrete states\<close>

text \<open>
  For closed examples the parameters are instantiated: a file is a table of rows under a
  header line (\<open>Table []\<close> is a header line alone), or content that \<open>read_csv\<close> rejects.
\<close>

datatype csv_file = Table "card list" | Unparsable

definition csv_io :: "csv_file pandas" where
  "csv_io =
     \<lparr>read_csv = (\<lambda>f. case f of Table d \<Rightarrow> Inr d | Unparsable \<Rightarrow> Inl ''EmptyDataError''),
      to_csv = (\<lambda>rows. if rows = [] then Unparsable else Table rows)\<rparr>"

text \<open>The program started with no data file at all, with the first draw \<open>0\<close>.\<close>

definition demo_state :: "csv_file app" where
  "demo_state = init_app csv_io 0 None None None"

text \<open>The program started on a dataset that holds the same row twice.\<close>

definition dup_state :: "csv_file app" where
  "dup_state = init_app csv_io 0 None (Some (Table [card_hello, card_hello])) None"


text \<open>A state whose current card is set and is not in the non-empty list.\<close>

definition stale_state :: "csv_file app" where
  "stale_state = demo_state\<lparr>current_card := card_hello, to_learn := [card_thank_you, card_water]\<rparr>"

subsection \<open>A reader that infers column types\<close>








text \<open>A card whose English side is written with digits, with a leading zero.\<close>

definition urdu_saat :: string where
  "urdu_saat = [CHR 0xD8, CHR 0xB3, CHR 0xD8, CHR 0xA7, CHR 0xD8, CHR 0xAA]"

definition card_seven :: card where
  "card_seven = [''Urdu'' \<mapsto> urdu_saat, ''English'' \<mapsto> ''007'']"


section \<open>Basic facts\<close>

lemma card_hello_nonempty: "card_hello \<noteq> Map.empty"
  by (simp add: card_hello_def)

lemma card_thank_you_nonempty: "card_thank_you \<noteq> Map.empty"
  by (simp add: card_thank_you_def)

lemma card_water_nonempty: "card_water \<noteq> Map.empty"
  by (simp add: card_water_def)

lemma demo_cards_distinct:
  "card_hello \<noteq> card_thank_you" "card_hello \<noteq> card_water" "card_thank_you \<noteq> card_water"
  "card_thank_you \<noteq> card_hello" "card_water \<noteq> card_hello" "card_water \<noteq> card_thank_you"
  by (auto simp: card_hello_def card_thank_you_def card_water_def
      dest!: fun_cong [where x = "''English''"])

lemma next_card_fields:
  "to_learn (next_card r s) = to_learn s"
  "last_removed (next_card r s) = last_removed s"
  "cards_learned_today (next_card r s) = cards_learned_today s"
  "original_count (next_card r s) = original_count s"
  "progress_file (next_card r s) = progress_file s"
  "original_file (next_card r s) = original_file s"
  "write_fails (next_card r s) = write_fails s"
  "undo_button (next_card r s) = undo_button s"
  "progress_var (next_card r s) = progress_var s"
  by (simp_all add: next_card_def show_completion_message_def)

lemma update_stats_fields:
  "to_learn (update_stats s) = to_learn s"
  "last_removed (update_stats s) = last_removed s"
  "cards_learned_today (update_stats s) = cards_learned_today s"
  "original_count (update_stats s) = original_count s"
  "progress_file (update_stats s) = progress_file s"
  "original_file (update_stats s) = original_file s"
  "write_fails (update_stats s) = write_fails s"
  "undo_button (update_stats s) = undo_button s"
  "current_card (update_stats s) = current_card s"
  "dialogs (update_stats s) = dialogs s"
  by (simp_all add: update_stats_def update_progress_bar_def Let_def)

lemma save_progress_fields:
  "to_learn (save_progress io s) = to_learn s"
  "last_removed (save_progress io s) = last_removed s"
  "cards_learned_today (save_progress io s) = cards_learned_today s"
  "original_count (save_progress io s) = original_count s"
  "original_file (save_progress io s) = original_file s"
  "write_fails (save_progress io s) = write_fails s"
  "undo_button (save_progress io s) = undo_button s"
  "current_card (save_progress io s) = current_card s"
  "progress_var (save_progress io s) = progress_var s"
  by (simp_all add: save_progress_def split: option.splits)

lemma save_progress_file:
  "progress_file (save_progress io s) =
     (case write_fails s of None \<Rightarrow> Some (to_csv io (to_learn s)) | Some e \<Rightarrow> progress_file s)"
  by (simp add: save_progress_def split: option.splits)

lemma is_known_guard:
  "current_card s = Map.empty \<or> to_learn s = [] \<Longrightarrow> is_known io r s = s"
  by (simp add: is_known_def)

lemma is_known_to_learn:
  "current_card s \<noteq> Map.empty \<Longrightarrow> to_learn s \<noteq> [] \<Longrightarrow>
   to_learn (is_known io r s) = remove1 (current_card s) (to_learn s)"
  by (simp add: is_known_def Let_def next_card_fields update_stats_fields save_progress_fields
      remove1_idem)

lemma is_known_counter:
  "current_card s \<noteq> Map.empty \<Longrightarrow> to_learn s \<noteq> [] \<Longrightarrow>
   cards_learned_today (is_known io r s) = cards_learned_today s + 1"
  by (simp add: is_known_def Let_def next_card_fields update_stats_fields save_progress_fields)

lemma is_known_last_removed:
  "current_card s \<noteq> Map.empty \<Longrightarrow> to_learn s \<noteq> [] \<Longrightarrow>
   last_removed (is_known io r s) = Some (current_card s)"
  by (simp add: is_known_def Let_def next_card_fields update_stats_fields save_progress_fields)

lemma is_known_progress_file:
  "current_card s \<noteq> Map.empty \<Longrightarrow> to_learn s \<noteq> [] \<Longrightarrow>
   progress_file (is_known io r s) =
     (case write_fails s of
        None \<Rightarrow> Some (to_csv io (remove1 (current_card s) (to_learn s)))
      | Some e \<Rightarrow> progress_file s)"
  by (simp add: is_known_def Let_def next_card_fields update_stats_fields save_progress_fields
      save_progress_file remove1_idem split: option.splits)

lemma is_known_original_count: "original_count (is_known io r s) = original_count s"
  by (simp add: is_known_def Let_def next_card_fields update_stats_fields save_progress_fields)

lemma demo_state_eq:
  "demo_state =
     \<lparr>current_card = card_hello, cards_learned_today = 0, is_flipped = False,
      to_learn = [card_hello, card_thank_you, card_water], original_count = 3,
      last_removed = None, undo_button = False, progress_var = 0, progress_file = None,
      original_file = None, write_fails = None, dialogs = [Warning_data_not_found]\<rparr>"
  by (simp add: demo_state_def init_app_def load_data_def load_data_try_def load_original_def
      demo_data_def update_progress_bar_def next_card_def random_choice_def Let_def)

lemma dup_state_eq:
  "dup_state =
     \<lparr>current_card = card_hello, cards_learned_today = 0, is_flipped = False,
      to_learn = [card_hello, card_hello], original_count = 2,
      last_removed = None, undo_button = False, progress_var = 0, progress_file = None,
      original_file = Some (Table [card_hello, card_hello]), write_fails = None, dialogs = []\<rparr>"
  by (simp add: dup_state_def init_app_def load_data_def load_data_try_def load_original_def
      csv_io_def update_progress_bar_def next_card_def random_choice_def Let_def)


section \<open>Marking a card as known\<close>

text \<open>
  Claim C1, as amended. \<open>is_known\<close> marks the current card \<open>x\<close> as known. When \<open>x\<close> is a
  non-empty record that occurs in the working set \<open>W\<close>, the new working set is \<open>W\<close> without
  the first occurrence of \<open>x\<close>: \<open>x\<close> occurs once less, so it is gone exactly when it
  occurred once; the size is \<open>|W| - 1\<close>; and \<open>cards_learned_today\<close> has grown by exactly 1.
\<close>

theorem is_known_removes_one_occurrence:
  assumes "current_card s \<noteq> Map.empty" and "current_card s \<in> set (to_learn s)"
  shows "to_learn (is_known io r s) = remove1 (current_card s) (to_learn s)
       \<and> count_list (to_learn (is_known io r s)) (current_card s)
           = count_list (to_learn s) (current_card s) - 1
       \<and> (current_card s \<notin> set (to_learn (is_known io r s))
            \<longleftrightarrow> count_list (to_learn s) (current_card s) = 1)
       \<and> length (to_learn (is_known io r s)) = length (to_learn s) - 1
       \<and> cards_learned_today (is_known io r s) = cards_learned_today s + 1"
proof -
  let ?x = "current_card s" and ?W = "to_learn s"
  from assms(2) have ne: "?W \<noteq> []" by auto
  have W': "to_learn (is_known io r s) = remove1 ?x ?W"
    using assms(1) ne by (rule is_known_to_learn)
  have pos: "0 < count_list ?W ?x"
    using assms(2) count_list_0_iff [of ?W ?x] by auto
  have cnt: "count_list (remove1 ?x ?W) ?x = count_list ?W ?x - 1"
    by simp
  have mem: "?x \<notin> set (remove1 ?x ?W) \<longleftrightarrow> count_list ?W ?x = 1"
  proof -
    have "?x \<notin> set (remove1 ?x ?W) \<longleftrightarrow> count_list (remove1 ?x ?W) ?x = 0"
      by (simp only: count_list_0_iff)
    also have "\<dots> \<longleftrightarrow> count_list ?W ?x = 1"
      using pos by (simp only: cnt) arith
    finally show ?thesis .
  qed
  have len: "length (remove1 ?x ?W) = length ?W - 1"
    using assms(2) by (simp add: length_remove1)
  have ctr: "cards_learned_today (is_known io r s) = cards_learned_today s + 1"
    using assms(1) ne by (rule is_known_counter)
  show ?thesis
    using W' cnt mem len ctr by simp
qed

text \<open>The theorem at the demo set, whose three cards differ: the first card is marked.\<close>

theorem is_known_removes_one_occurrence_witness:
  "current_card demo_state \<noteq> Map.empty \<and> current_card demo_state \<in> set (to_learn demo_state)
   \<and> to_learn (is_known csv_io 0 demo_state) = [card_thank_you, card_water]
   \<and> current_card demo_state \<notin> set (to_learn (is_known csv_io 0 demo_state))
   \<and> cards_learned_today (is_known csv_io 0 demo_state) = 1"
proof -
  have h1: "current_card demo_state \<noteq> Map.empty"
    by (simp add: demo_state_eq card_hello_nonempty)
  have h2: "current_card demo_state \<in> set (to_learn demo_state)"
    by (simp add: demo_state_eq)
  show ?thesis
    using h1 h2 is_known_removes_one_occurrence [OF h1 h2, of csv_io 0]
    by (simp add: demo_state_eq demo_cards_distinct)
qed

text \<open>
  The claim as stated (\<open>x\<close> is not in the new working set) fails on a dataset that holds a
  row twice: \<open>list.remove\<close> takes out the first occurrence and the second stays.
\<close>

theorem is_known_duplicate_counterexample:
  "current_card dup_state \<in> set (to_learn dup_state)
   \<and> current_card dup_state \<in> set (to_learn (is_known csv_io 0 dup_state))"
  by (simp add: is_known_to_learn dup_state_eq card_hello_nonempty)

text \<open>
  Claim C10. In a state whose working set is non-empty and whose current card is set (a
  non-empty record) but is not in the working set, \<open>is_known\<close> is not a no-op: the undo
  slot holds the current card afterwards, \<open>cards_learned_today\<close> has grown by 1 and the
  save has been attempted (the progress file holds the working set, or the failure was
  printed), while the working set is the same list. So the counter can exceed the number
  of cards removed.
\<close>

theorem is_known_card_not_in_list:
  assumes "to_learn s \<noteq> []" and "current_card s \<noteq> Map.empty"
    and "current_card s \<notin> set (to_learn s)"
  shows "last_removed (is_known io r s) = Some (current_card s)
       \<and> cards_learned_today (is_known io r s) = cards_learned_today s + 1
       \<and> to_learn (is_known io r s) = to_learn s
       \<and> (case write_fails s of
             None \<Rightarrow> progress_file (is_known io r s) = Some (to_csv io (to_learn s))
           | Some e \<Rightarrow> Print_save_error e \<in> set (dialogs (is_known io r s)))
       \<and> is_known io r s \<noteq> s"
proof -
  have slot: "last_removed (is_known io r s) = Some (current_card s)"
    using assms(2,1) by (rule is_known_last_removed)
  have ctr: "cards_learned_today (is_known io r s) = cards_learned_today s + 1"
    using assms(2,1) by (rule is_known_counter)
  have W: "to_learn (is_known io r s) = to_learn s"
    using is_known_to_learn [OF assms(2,1)] assms(3) by (simp add: remove1_idem)
  have saved: "case write_fails s of
             None \<Rightarrow> progress_file (is_known io r s) = Some (to_csv io (to_learn s))
           | Some e \<Rightarrow> Print_save_error e \<in> set (dialogs (is_known io r s))"
    using assms
    by (simp add: is_known_def Let_def next_card_def update_stats_def update_progress_bar_def
        save_progress_def split: option.splits)
  have "cards_learned_today (is_known io r s) \<noteq> cards_learned_today s"
    using ctr by simp
  then have neq: "is_known io r s \<noteq> s" by auto
  show ?thesis using slot ctr W saved neq by simp
qed

lemma stale_state_eq:
  "stale_state =
     \<lparr>current_card = card_hello, cards_learned_today = 0, is_flipped = False,
      to_learn = [card_thank_you, card_water], original_count = 3,
      last_removed = None, undo_button = False, progress_var = 0, progress_file = None,
      original_file = None, write_fails = None, dialogs = [Warning_data_not_found]\<rparr>"
  by (simp add: stale_state_def demo_state_eq)

text \<open>The theorem at a state where the card on display is not among the two cards left.\<close>

theorem is_known_card_not_in_list_witness:
  "to_learn stale_state \<noteq> [] \<and> current_card stale_state \<noteq> Map.empty
   \<and> current_card stale_state \<notin> set (to_learn stale_state)
   \<and> last_removed (is_known csv_io 0 stale_state) = Some card_hello
   \<and> cards_learned_today (is_known csv_io 0 stale_state) = 1
   \<and> to_learn (is_known csv_io 0 stale_state) = [card_thank_you, card_water]
   \<and> progress_file (is_known csv_io 0 stale_state) = Some (Table [card_thank_you, card_water])"
proof -
  have h1: "to_learn stale_state \<noteq> []"
    by (simp add: stale_state_eq)
  have h2: "current_card stale_state \<noteq> Map.empty"
    by (simp add: stale_state_eq card_hello_nonempty)
  have h3: "current_card stale_state \<notin> set (to_learn stale_state)"
    by (simp add: stale_state_eq demo_cards_distinct)
  show ?thesis
    using h1 h2 h3 is_known_card_not_in_list [OF h1 h2 h3, of csv_io 0]
    by (simp add: stale_state_eq csv_io_def)
qed

section \<open>Undo\<close>

lemma undo_last_to_learn:
  "last_removed s = Some c \<Longrightarrow> c \<noteq> Map.empty \<Longrightarrow> to_learn (undo_last io s) = to_learn s @ [c]"
  by (simp add: undo_last_def Let_def update_stats_fields save_progress_fields)

lemma undo_last_counter:
  "last_removed s = Some c \<Longrightarrow> c \<noteq> Map.empty \<Longrightarrow>
   cards_learned_today (undo_last io s) = max 0 (cards_learned_today s - 1)"
  by (simp add: undo_last_def Let_def update_stats_fields save_progress_fields)

lemma undo_last_last_removed:
  "last_removed s \<noteq> Some Map.empty \<Longrightarrow> last_removed (undo_last io s) = None"
  by (simp add: undo_last_def Let_def split: option.splits)

lemma undo_last_original_count: "original_count (undo_last io s) = original_count s"
  by (simp add: undo_last_def Let_def update_stats_fields save_progress_fields split: option.splits)

text \<open>
  Claim C2. When the current card \<open>x\<close> is a non-empty record in the working set \<open>W\<close>,
  \<open>undo_last\<close> right after \<open>is_known\<close> gives back \<open>W\<close> as a collection of records (the
  same multiset, hence the same set: \<open>x\<close> has moved to the end of the list) and
  \<open>cards_learned_today\<close> has the value it had before \<open>is_known\<close>. The counter is never
  negative in a run of the program (\<open>cards_learned_today_nonneg\<close> below).
\<close>

theorem undo_last_after_is_known:
  assumes "current_card s \<noteq> Map.empty" and "current_card s \<in> set (to_learn s)"
    and "0 \<le> cards_learned_today s"
  shows "mset (to_learn (undo_last io (is_known io r s))) = mset (to_learn s)
       \<and> set (to_learn (undo_last io (is_known io r s))) = set (to_learn s)
       \<and> cards_learned_today (undo_last io (is_known io r s)) = cards_learned_today s"
proof -
  let ?x = "current_card s" and ?k = "is_known io r s"
  from assms(2) have ne: "to_learn s \<noteq> []" by auto
  have slot: "last_removed ?k = Some ?x"
    using assms(1) ne by (rule is_known_last_removed)
  have W1: "to_learn ?k = remove1 ?x (to_learn s)"
    using assms(1) ne by (rule is_known_to_learn)
  have c1: "cards_learned_today ?k = cards_learned_today s + 1"
    using assms(1) ne by (rule is_known_counter)
  have W2: "to_learn (undo_last io ?k) = remove1 ?x (to_learn s) @ [?x]"
    using undo_last_to_learn [OF slot assms(1)] W1 by simp
  have m: "mset (to_learn (undo_last io ?k)) = mset (to_learn s)"
    using assms(2) by (simp add: W2)
  have c2: "cards_learned_today (undo_last io ?k) = cards_learned_today s"
    using undo_last_counter [OF slot assms(1)] c1 assms(3) by simp
  from m have "set_mset (mset (to_learn (undo_last io ?k))) = set_mset (mset (to_learn s))"
    by simp
  then have st: "set (to_learn (undo_last io ?k)) = set (to_learn s)"
    by (simp only: set_mset_mset)
  show ?thesis using m st c2 by simp
qed

text \<open>The theorem at the demo set: the first card is marked known, then restored.\<close>

theorem undo_last_after_is_known_witness:
  "current_card demo_state \<noteq> Map.empty \<and> current_card demo_state \<in> set (to_learn demo_state)
   \<and> 0 \<le> cards_learned_today demo_state
   \<and> to_learn (undo_last csv_io (is_known csv_io 0 demo_state))
        = [card_thank_you, card_water, card_hello]
   \<and> set (to_learn (undo_last csv_io (is_known csv_io 0 demo_state))) = set (to_learn demo_state)
   \<and> cards_learned_today (undo_last csv_io (is_known csv_io 0 demo_state)) = 0"
proof -
  have h1: "current_card demo_state \<noteq> Map.empty"
    by (simp add: demo_state_eq card_hello_nonempty)
  have h2: "current_card demo_state \<in> set (to_learn demo_state)"
    by (simp add: demo_state_eq)
  have h3: "0 \<le> cards_learned_today demo_state"
    by (simp add: demo_state_eq)
  have l: "last_removed (is_known csv_io 0 demo_state) = Some card_hello"
    using is_known_last_removed [of demo_state csv_io 0] h1 by (simp add: demo_state_eq)
  have W: "to_learn (undo_last csv_io (is_known csv_io 0 demo_state))
        = [card_thank_you, card_water, card_hello]"
    using undo_last_to_learn [OF l card_hello_nonempty, of csv_io]
      is_known_to_learn [of demo_state csv_io 0] h1
    by (simp add: demo_state_eq demo_cards_distinct)
  show ?thesis
    using h1 h2 h3 W undo_last_after_is_known [OF h1 h2 h3, of csv_io 0]
    by (simp add: demo_state_eq)
qed

text \<open>
  Claim C6. With the undo slot empty (\<open>last_removed\<close> is \<open>None\<close>), \<open>undo_last\<close> returns
  the state it was given: working set, counters, undo slot and files are the same, and
  nothing is shown or printed.
\<close>

theorem undo_last_empty_slot:
  "last_removed s = None \<Longrightarrow> undo_last io s = s"
  by (simp add: undo_last_def)

text \<open>The theorem at the start of the program, where nothing has been marked yet.\<close>

theorem undo_last_empty_slot_witness:
  "last_removed demo_state = None \<and> undo_last csv_io demo_state = demo_state
   \<and> to_learn (undo_last csv_io demo_state) = [card_hello, card_thank_you, card_water]
   \<and> dialogs (undo_last csv_io demo_state) = [Warning_data_not_found]"
proof -
  have h: "last_removed demo_state = None"
    by (simp add: demo_state_eq)
  show ?thesis
    using h undo_last_empty_slot [OF h, of csv_io] by (simp add: demo_state_eq)
qed

section \<open>Loading and saving\<close>

lemma load_data_try_no_progress:
  "no_saved_progress io s \<Longrightarrow>
   load_data_try io (progress_file s) orig = load_original io orig"
  by (auto simp: no_saved_progress_def load_data_try_def split: option.splits)

lemma length_demo_data: "length demo_data = 3"
  by (simp add: demo_data_def)

lemma csv_io_read [simp]:
  "read_csv csv_io (Table d) = Inr d"
  "read_csv csv_io Unparsable = Inl ''EmptyDataError''"
  by (simp_all add: csv_io_def)

lemma csv_io_write [simp]:
  "to_csv csv_io [] = Unparsable"
  "to_csv csv_io (x # xs) = Table (x # xs)"
  by (simp_all add: csv_io_def)

text \<open>
  Claim C3. \<open>load_data\<close> resolves the working set in this order, whatever the files are:
  the rows of the progress file when it exists and parses to at least one row; otherwise
  (no progress file, or one of no rows) the rows of the original file when it exists;
  otherwise the built-in list of exactly 3 cards, with a warning. When a file that is
  consulted cannot be read, the result is the empty list and an error dialog. Being a
  total function of the files, \<open>load_data\<close> returns in every case.
\<close>

theorem load_data_resolution:
  "(progress_file s = Some f \<and> read_csv io f = Inr d \<and> d \<noteq> [] \<longrightarrow> load_data io s = (d, []))
 \<and> (no_saved_progress io s \<and> original_file s = Some g \<and> read_csv io g = Inr d'
      \<longrightarrow> load_data io s = (d', []))
 \<and> (no_saved_progress io s \<and> original_file s = None
      \<longrightarrow> load_data io s = (demo_data, [Warning_data_not_found]) \<and> length demo_data = 3)
 \<and> (progress_file s = Some f \<and> read_csv io f = Inl e \<longrightarrow> load_data io s = ([], [Error_load e]))
 \<and> (no_saved_progress io s \<and> original_file s = Some g \<and> read_csv io g = Inl e'
      \<longrightarrow> load_data io s = ([], [Error_load e']))"
proof (intro conjI impI)
  assume "progress_file s = Some f \<and> read_csv io f = Inr d \<and> d \<noteq> []"
  then show "load_data io s = (d, [])"
    by (simp add: load_data_def load_data_try_def)
next
  assume a: "no_saved_progress io s \<and> original_file s = Some g \<and> read_csv io g = Inr d'"
  then show "load_data io s = (d', [])"
    by (simp add: load_data_def load_data_try_no_progress load_original_def)
next
  assume a: "no_saved_progress io s \<and> original_file s = None"
  then show "load_data io s = (demo_data, [Warning_data_not_found])"
    by (simp add: load_data_def load_data_try_no_progress load_original_def)
next
  show "length demo_data = 3" by (rule length_demo_data)
next
  assume "progress_file s = Some f \<and> read_csv io f = Inl e"
  then show "load_data io s = ([], [Error_load e])"
    by (simp add: load_data_def load_data_try_def)
next
  assume a: "no_saved_progress io s \<and> original_file s = Some g \<and> read_csv io g = Inl e'"
  then show "load_data io s = ([], [Error_load e'])"
    by (simp add: load_data_def load_data_try_no_progress load_original_def)
qed

text \<open>
  Each case of the theorem at concrete files: a progress file of one row; a progress file
  of no rows, then no progress file, before an original file; no file at all; and an
  unreadable progress file, then an unreadable original file.
\<close>

theorem load_data_resolution_witness:
  "load_data csv_io (demo_state\<lparr>progress_file := Some (Table [card_water]),
       original_file := Some (Table demo_data)\<rparr>) = ([card_water], [])
 \<and> load_data csv_io (demo_state\<lparr>progress_file := Some (Table []),
       original_file := Some (Table [card_hello, card_water])\<rparr>) = ([card_hello, card_water], [])
 \<and> load_data csv_io (demo_state\<lparr>original_file := Some (Table [card_hello])\<rparr>) = ([card_hello], [])
 \<and> load_data csv_io demo_state = ([card_hello, card_thank_you, card_water], [Warning_data_not_found])
 \<and> load_data csv_io (demo_state\<lparr>progress_file := Some Unparsable,
       original_file := Some (Table demo_data)\<rparr>) = ([], [Error_load ''EmptyDataError''])
 \<and> load_data csv_io (demo_state\<lparr>original_file := Some Unparsable\<rparr>)
       = ([], [Error_load ''EmptyDataError''])"
proof -
  let ?s1 = "demo_state\<lparr>progress_file := Some (Table [card_water]),
       original_file := Some (Table demo_data)\<rparr>"
  let ?s2 = "demo_state\<lparr>progress_file := Some (Table []),
       original_file := Some (Table [card_hello, card_water])\<rparr>"
  let ?s3 = "demo_state\<lparr>original_file := Some (Table [card_hello])\<rparr>"
  let ?s5 = "demo_state\<lparr>progress_file := Some Unparsable,
       original_file := Some (Table demo_data)\<rparr>"
  let ?s6 = "demo_state\<lparr>original_file := Some Unparsable\<rparr>"
  have 1: "load_data csv_io ?s1 = ([card_water], [])"
    using load_data_resolution [of ?s1 "Table [card_water]" csv_io "[card_water]"]
    by (simp add: demo_state_eq)
  have 2: "load_data csv_io ?s2 = ([card_hello, card_water], [])"
    using load_data_resolution [of ?s2 _ csv_io _ "Table [card_hello, card_water]"
        "[card_hello, card_water]"]
    by (simp add: demo_state_eq no_saved_progress_def)
  have 3: "load_data csv_io ?s3 = ([card_hello], [])"
    using load_data_resolution [of ?s3 _ csv_io _ "Table [card_hello]" "[card_hello]"]
    by (simp add: demo_state_eq no_saved_progress_def)
  have 4: "load_data csv_io demo_state
         = ([card_hello, card_thank_you, card_water], [Warning_data_not_found])"
    using load_data_resolution [of demo_state _ csv_io]
    by (simp add: demo_state_eq no_saved_progress_def demo_data_def)
  have 5: "load_data csv_io ?s5 = ([], [Error_load ''EmptyDataError''])"
    using load_data_resolution [of ?s5 Unparsable csv_io _ _ _ "''EmptyDataError''"]
    by (simp add: demo_state_eq)
  have 6: "load_data csv_io ?s6 = ([], [Error_load ''EmptyDataError''])"
    using load_data_resolution [of ?s6 _ csv_io _ Unparsable _ _ "''EmptyDataError''"]
    by (simp add: demo_state_eq no_saved_progress_def)
  show ?thesis using 1 2 3 4 5 6 by simp
qed





lemma card_hello_seven: "card_hello \<noteq> card_seven" "card_seven \<noteq> card_hello"
  by (auto simp: card_hello_def card_seven_def dest!: fun_cong [where x = "''English''"])






section \<open>The next card\<close>

text \<open>
  Claim C7. \<open>next_card\<close> reports completion (the congratulations dialog, and the card
  on display stays as it was) if and only if the working set is empty; otherwise the new
  current card is a member of the working set. In both cases the working set, the undo
  slot, both counters and both files are as before: skipping a card changes no stored
  state.
\<close>

theorem next_card_frame:
  "(to_learn s = [] \<longrightarrow> next_card r s = show_completion_message s
        \<and> current_card (next_card r s) = current_card s)
 \<and> (to_learn s \<noteq> [] \<longrightarrow> current_card (next_card r s) \<in> set (to_learn s)
        \<and> dialogs (next_card r s) = dialogs s)
 \<and> (dialogs (next_card r s) \<noteq> dialogs s \<longleftrightarrow> to_learn s = [])
 \<and> to_learn (next_card r s) = to_learn s
 \<and> last_removed (next_card r s) = last_removed s
 \<and> undo_button (next_card r s) = undo_button s
 \<and> cards_learned_today (next_card r s) = cards_learned_today s
 \<and> original_count (next_card r s) = original_count s
 \<and> progress_file (next_card r s) = progress_file s
 \<and> original_file (next_card r s) = original_file s"
proof -
  have e: "to_learn s = [] \<Longrightarrow> next_card r s = show_completion_message s"
    by (simp add: next_card_def)
  have e': "to_learn s = [] \<Longrightarrow> current_card (next_card r s) = current_card s"
    by (simp add: next_card_def show_completion_message_def)
  have n: "to_learn s \<noteq> [] \<Longrightarrow> current_card (next_card r s) \<in> set (to_learn s)"
    by (simp add: next_card_def random_choice_def)
  have n': "to_learn s \<noteq> [] \<Longrightarrow> dialogs (next_card r s) = dialogs s"
    by (simp add: next_card_def)
  have d: "to_learn s = [] \<Longrightarrow> dialogs (next_card r s) \<noteq> dialogs s"
    by (simp add: next_card_def show_completion_message_def)
  show ?thesis
    using e e' n n' d by (auto simp: next_card_fields)
qed

text \<open>The theorem at the demo set with the draw 4, and at an empty working set.\<close>

theorem next_card_frame_witness:
  "to_learn demo_state \<noteq> [] \<and> current_card (next_card 4 demo_state) = card_thank_you
 \<and> current_card (next_card 4 demo_state) \<in> set (to_learn demo_state)
 \<and> to_learn (next_card 4 demo_state) = to_learn demo_state
 \<and> to_learn (demo_state\<lparr>to_learn := []\<rparr>) = []
 \<and> dialogs (next_card 4 (demo_state\<lparr>to_learn := []\<rparr>))
      = [Warning_data_not_found, Info_congratulations 3 0]
 \<and> current_card (next_card 4 (demo_state\<lparr>to_learn := []\<rparr>)) = card_hello"
proof -
  let ?e = "demo_state\<lparr>to_learn := []\<rparr>"
  have c: "current_card (next_card 4 demo_state) = card_thank_you"
    by (simp add: next_card_def random_choice_def demo_state_eq)
  show ?thesis
    using c next_card_frame [of demo_state 4] next_card_frame [of ?e 4]
    by (simp add: demo_state_eq show_completion_message_def)
qed

section \<open>The progress summary\<close>



section \<open>Runs\<close>

text \<open>The session counter is never negative, from the start of the program on.\<close>

lemma is_known_counter_ge: "cards_learned_today s \<le> cards_learned_today (is_known io r s)"
proof (cases "current_card s = Map.empty \<or> to_learn s = []")
  case True
  then show ?thesis by (simp add: is_known_guard)
next
  case False
  then show ?thesis by (simp add: is_known_counter)
qed

lemma undo_last_counter_nonneg:
  "0 \<le> cards_learned_today s \<Longrightarrow> 0 \<le> cards_learned_today (undo_last io s)"
  by (simp add: undo_last_def Let_def update_stats_fields save_progress_fields
      split: option.splits)

lemma reset_progress_counter_nonneg:
  "0 \<le> cards_learned_today s \<Longrightarrow> 0 \<le> cards_learned_today (reset_progress io yes r s)"
  by (simp add: reset_progress_def unlink_def Let_def next_card_fields update_stats_fields
      split: option.splits sum.splits prod.splits)

lemma step_counter_nonneg:
  "0 \<le> cards_learned_today s \<Longrightarrow> 0 \<le> cards_learned_today (step io x s)"
proof (cases x)
  case (Is_known r)
  assume "0 \<le> cards_learned_today s"
  with is_known_counter_ge [of s io r] Is_known show ?thesis by simp
qed (simp_all add: next_card_fields save_progress_fields undo_last_counter_nonneg
    reset_progress_counter_nonneg)

lemma run_counter_nonneg:
  "0 \<le> cards_learned_today s \<Longrightarrow> 0 \<le> cards_learned_today (run io ops s)"
  by (induction ops arbitrary: s) (simp_all add: step_counter_nonneg)

lemma init_app_counter: "cards_learned_today (init_app io r prog orig fails) = 0"
  by (simp add: init_app_def Let_def next_card_fields show_completion_message_def
      update_progress_bar_def split: prod.splits)

lemma cards_learned_today_nonneg:
  "0 \<le> cards_learned_today (run io ops (init_app io r prog orig fails))"
  by (rule run_counter_nonneg) (simp add: init_app_counter)

lemma learned_total_eq: "learned_total s = original_count s - int (length (to_learn s))"
  by (simp add: learned_total_def get_progress_text_def Let_def)

lemma learned_total_is_known: "learned_total s \<le> learned_total (is_known io r s)"
proof (cases "current_card s = Map.empty \<or> to_learn s = []")
  case True
  then show ?thesis by (simp add: is_known_guard)
next
  case False
  then have "to_learn (is_known io r s) = remove1 (current_card s) (to_learn s)"
    by (simp add: is_known_to_learn)
  then have "length (to_learn (is_known io r s)) \<le> length (to_learn s)"
    by (simp add: length_remove1)
  then show ?thesis
    by (simp add: learned_total_eq is_known_original_count)
qed

lemma learned_total_step:
  "\<not> is_undo_or_reset x \<Longrightarrow> learned_total s \<le> learned_total (step io x s)"
proof (cases x)
  case (Is_known r)
  then show ?thesis by (simp add: learned_total_is_known)
qed (simp_all add: learned_total_eq next_card_fields save_progress_fields)

lemma trace_head: "\<exists>rest. trace io ops s = s # rest"
  by (cases ops) simp_all

lemma sorted_trace:
  "\<forall>x \<in> set ops. \<not> is_undo_or_reset x \<Longrightarrow> sorted (map learned_total (trace io ops s))"
proof (induction ops arbitrary: s)
  case Nil
  then show ?case by simp
next
  case (Cons x xs)
  obtain rest where r: "trace io xs (step io x s) = step io x s # rest"
    using trace_head by blast
  have st: "learned_total s \<le> learned_total (step io x s)"
    using Cons.prems by (simp add: learned_total_step)
  have "sorted (map learned_total (trace io xs (step io x s)))"
    using Cons.prems by (intro Cons.IH) simp
  with st r show ?case by (auto intro: order_trans)
qed

text \<open>
  Claim C9. Along a run with no undo and no reset, the learned total of the progress
  summary never decreases: the totals of the states the run passes are in ascending
  order, so each is at most the next and the first at most the last. Step by step,
  \<open>is_known\<close> does not lower it, and \<open>next_card\<close> and \<open>save_progress\<close> leave it as it is.
\<close>

theorem learned_total_never_decreases:
  assumes "\<forall>x \<in> set ops. \<not> is_undo_or_reset x"
  shows "sorted (map learned_total (trace io ops s))
       \<and> learned_total s \<le> learned_total (run io ops s)
       \<and> learned_total s \<le> learned_total (is_known io r s)
       \<and> learned_total (next_card r s) = learned_total s
       \<and> learned_total (save_progress io s) = learned_total s"
proof -
  have "learned_total t \<le> learned_total (run io ops t)" for t
    using assms
  proof (induction ops arbitrary: t)
    case Nil
    then show ?case by simp
  next
    case (Cons x xs)
    have "learned_total t \<le> learned_total (step io x t)"
      using Cons.prems by (simp add: learned_total_step)
    also have "\<dots> \<le> learned_total (run io xs (step io x t))"
      using Cons.prems by (intro Cons.IH) simp
    finally show ?case by simp
  qed
  then have a: "learned_total s \<le> learned_total (run io ops s)" .
  have b: "sorted (map learned_total (trace io ops s))"
    using assms by (rule sorted_trace)
  have c: "learned_total s \<le> learned_total (is_known io r s)"
    by (rule learned_total_is_known)
  have d: "learned_total (next_card r s) = learned_total s"
    "learned_total (save_progress io s) = learned_total s"
    by (simp_all add: learned_total_eq next_card_fields save_progress_fields)
  show ?thesis using a b c d by simp
qed

lemma is_known_demo_state:
  "is_known csv_io 0 demo_state =
     \<lparr>current_card = card_thank_you, cards_learned_today = 1, is_flipped = False,
      to_learn = [card_thank_you, card_water], original_count = 3,
      last_removed = Some card_hello, undo_button = True, progress_var = 100 / 3,
      progress_file = Some (Table [card_thank_you, card_water]),
      original_file = None, write_fails = None, dialogs = [Warning_data_not_found]\<rparr>"
  by (simp add: is_known_def demo_state_eq card_hello_nonempty Let_def save_progress_def
      update_stats_def update_progress_bar_def next_card_def random_choice_def)

text \<open>The theorem on a run from the demo set: skip a card, mark one known, save.\<close>

theorem learned_total_never_decreases_witness:
  "map is_undo_or_reset [Next_card 4, Is_known 0, Save_progress] = [False, False, False]
 \<and> map learned_total (trace csv_io [Next_card 4, Is_known 0, Save_progress] demo_state)
      = [0, 0, 1, 1]
 \<and> sorted (map learned_total (trace csv_io [Next_card 4, Is_known 0, Save_progress] demo_state))"
proof -
  let ?ops = "[Next_card 4, Is_known 0, Save_progress]"
  have h: "\<forall>x \<in> set ?ops. \<not> is_undo_or_reset x" by simp
  have n: "next_card 4 demo_state = demo_state\<lparr>current_card := card_thank_you\<rparr>"
    by (simp add: next_card_def random_choice_def demo_state_eq)
  have g: "current_card (demo_state\<lparr>current_card := card_thank_you\<rparr>) \<noteq> Map.empty"
    "to_learn (demo_state\<lparr>current_card := card_thank_you\<rparr>) \<noteq> []"
    by (simp_all add: card_thank_you_nonempty demo_state_eq)
  have k: "learned_total (is_known csv_io 0 (demo_state\<lparr>current_card := card_thank_you\<rparr>)) = 1"
    using is_known_to_learn [OF g, of csv_io 0]
    by (simp add: learned_total_eq is_known_original_count demo_state_eq demo_cards_distinct)
  have v: "map learned_total (trace csv_io ?ops demo_state) = [0, 0, 1, 1]"
    using k by (simp add: n learned_total_eq save_progress_fields) (simp add: demo_state_eq)
  show ?thesis
    using h v learned_total_never_decreases [OF h, of csv_io demo_state 0] by simp
qed

section \<open>Reset\<close>

text \<open>
  A confirmed reset whose deletion does not fail leaves no progress file, reloads the
  working set from the original file (or the demo set), counts it anew and sets the
  session counter to 0.
\<close>

lemma reset_progress_effect:
  assumes "write_fails s = None \<or> progress_file s = None"
  shows "progress_file (reset_progress io True r s) = None
       \<and> to_learn (reset_progress io True r s)
           = fst (case load_original io (original_file s) of
                    Inl e \<Rightarrow> ([], [Error_load e]) | Inr x \<Rightarrow> x)
       \<and> original_count (reset_progress io True r s)
           = int (length (to_learn (reset_progress io True r s)))
       \<and> cards_learned_today (reset_progress io True r s) = 0"
  using assms
  by (auto simp: reset_progress_def unlink_def load_data_def load_data_try_def Let_def
      next_card_fields update_stats_fields split: option.splits sum.splits prod.splits)

text \<open>No branch of \<open>reset_progress\<close> assigns \<open>last_removed\<close>.\<close>

lemma reset_progress_last_removed:
  "last_removed (reset_progress io yes r s) = last_removed s"
  by (simp add: reset_progress_def unlink_def Let_def next_card_fields update_stats_fields
      split: option.splits sum.splits prod.splits)

text \<open>
  Claim C4, on the code. After a confirmed reset the undo slot is not empty when it was
  occupied before, and the next \<open>undo_last\<close> is not a no-op. From the demo set: the first
  card is marked known, the progress is reset, and undo then appends the old card to the
  freshly loaded working set, which holds it twice; the learned total of the summary is
  \<open>-1\<close>.
\<close>

theorem reset_progress_then_undo_last:
  "last_removed (reset_progress csv_io True 0 (is_known csv_io 0 demo_state)) = Some card_hello
 \<and> to_learn (reset_progress csv_io True 0 (is_known csv_io 0 demo_state))
      = [card_hello, card_thank_you, card_water]
 \<and> to_learn (undo_last csv_io (reset_progress csv_io True 0 (is_known csv_io 0 demo_state)))
      = [card_hello, card_thank_you, card_water, card_hello]
 \<and> learned_total (undo_last csv_io (reset_progress csv_io True 0 (is_known csv_io 0 demo_state)))
      = - 1"
proof -
  let ?k = "is_known csv_io 0 demo_state"
  let ?t = "reset_progress csv_io True 0 ?k"
  have slot: "last_removed ?t = Some card_hello"
    by (simp add: reset_progress_last_removed is_known_demo_state)
  have W: "to_learn ?t = [card_hello, card_thank_you, card_water]"
    by (simp add: is_known_demo_state reset_progress_def unlink_def load_data_def
        load_data_try_def load_original_def demo_data_def Let_def update_stats_fields
        next_card_fields)
  have n: "original_count ?t = 3"
    by (simp add: is_known_demo_state reset_progress_def unlink_def load_data_def
        load_data_try_def load_original_def demo_data_def Let_def update_stats_def
        update_progress_bar_def next_card_fields)
  have U: "to_learn (undo_last csv_io ?t) = [card_hello, card_thank_you, card_water, card_hello]"
    using undo_last_to_learn [OF slot card_hello_nonempty, of csv_io] W by simp
  have "learned_total (undo_last csv_io ?t) = - 1"
    using U n by (simp add: learned_total_eq undo_last_original_count)
  with slot W U show ?thesis by simp
qed

end
